theory Spec2Isabelle
  imports Complex_Main "HOL-Library.Sublist"
begin

section \<open>The JSON-Schema-to-GBNF compiler of \<^verbatim>\<open>src/llm/json_schema_to_gbnf.py\<close>\<close>

text \<open>
  The compiler is the function \<^verbatim>\<open>json_schema_to_gbnf\<close> with its nested helpers
  \<^verbatim>\<open>process_property\<close>, \<^verbatim>\<open>process_ref\<close>, \<^verbatim>\<open>process_type\<close>, \<^verbatim>\<open>process_string\<close>,
  \<^verbatim>\<open>process_array\<close> and \<^verbatim>\<open>process_object\<close>. It is a pure function from the tree that
  \<^verbatim>\<open>json.loads\<close> or \<^verbatim>\<open>yaml.safe_load\<close> produced to a string, or to an exception.
  Each helper is embedded under its own name; an exception is the \<open>Inl\<close> side of a sum.
\<close>

subsection \<open>Values of the loaded document\<close>

text \<open>
  The input is a generic tree: maps with string keys, sequences, and string, number,
  boolean and null scalars. A Python \<^verbatim>\<open>dict\<close> keeps insertion order, which the object
  emitter makes visible, so a map is an association list (Python's keys are distinct;
  the theorems below hold for every association list). A Python \<^verbatim>\<open>str\<close> is modelled by
  its UTF-8 bytes.

  A float is compared with 0 and 1, tested for truth and printed in f-strings (an
  \<^verbatim>\<open>enum\<close> value, a \<^verbatim>\<open>pattern\<close>, an unsupported \<^verbatim>\<open>type\<close>). The model keeps what
  these can tell apart: the exact value of a finite float, the sign of a zero
  (\<open>Finite 0\<close> is \<^verbatim>\<open>0.0\<close> and \<open>NegZero\<close> is \<^verbatim>\<open>-0.0\<close>, which are equal and both falsy but
  print differently), the two infinities, and NaN, which prints as \<^verbatim>\<open>nan\<close> whatever its
  payload.
\<close>

datatype pyfloat = Finite rat | NegZero | PosInf | NegInf | NaN

datatype json =
    JNull
  | JBool bool
  | JInt int
  | JFloat pyfloat
  | JStr string
  | JList "json list"
  | JDict "(string \<times> json) list"

subsection \<open>Exceptions\<close>

text \<open>
  The source raises \<^verbatim>\<open>ValueError\<close> with a message of its own. The interpreter raises
  the others when an operation meets a value of the wrong Python type:
  \<^item> \<open>TypeError NotContainer v\<close>: \<^verbatim>\<open>"type" in v\<close> for \<open>v\<close> null, a boolean or a number;
  \<^item> \<open>TypeError BadIndex v\<close>: \<^verbatim>\<open>v["type"]\<close> for \<open>v\<close> a string or a list;
  \<^item> \<open>TypeError Unhashable v\<close>: \<open>v\<close> a list or a map used as a key of a \<^verbatim>\<open>dict\<close>
    or as a member of a \<^verbatim>\<open>set\<close>;
  \<^item> \<open>TypeError NotIterable v\<close>: iterating over null, a boolean or a number;
  \<^item> \<open>AttributeError v\<close>: \<^verbatim>\<open>v.items()\<close> for \<open>v\<close> not a map.
  \<^verbatim>\<open>except ValueError\<close> catches the first kind only, \<^verbatim>\<open>except Exception\<close> all of them.
\<close>

datatype fault = NotContainer | BadIndex | Unhashable | NotIterable

datatype exn =
    ValueError string
  | TypeError fault json
  | AttributeError json

text \<open>
  An f-string field \<^verbatim>\<open>{v}\<close> is \<^verbatim>\<open>str(v)\<close>: a string stands for itself. How the
  interpreter prints any other value (\<^verbatim>\<open>None\<close>, \<^verbatim>\<open>True\<close>, a number, the \<^verbatim>\<open>repr\<close> of a
  list or a map) is the parameter \<open>fmt\<close>. In the same way \<^verbatim>\<open>str(e)\<close> is the message of a
  \<^verbatim>\<open>ValueError\<close>, and the interpreter's text for its own exceptions is the parameter
  \<open>rt\<close>.
\<close>

definition py_str :: "(json \<Rightarrow> string) \<Rightarrow> json \<Rightarrow> string" where
  "py_str fmt v = (case v of JStr s \<Rightarrow> s | _ \<Rightarrow> fmt v)"

definition exc_str :: "(exn \<Rightarrow> string) \<Rightarrow> exn \<Rightarrow> string" where
  "exc_str rt e = (case e of ValueError m \<Rightarrow> m | _ \<Rightarrow> rt e)"

subsection \<open>Python's operations on these values\<close>

text \<open>Truthiness, as \<^verbatim>\<open>not v\<close> and \<^verbatim>\<open>if v:\<close> test it.\<close>

fun truthy :: "json \<Rightarrow> bool" where
  "truthy JNull = False"
| "truthy (JBool b) = b"
| "truthy (JInt i) = (i \<noteq> 0)"
| "truthy (JFloat f) = (f \<noteq> Finite 0 \<and> f \<noteq> NegZero)"
| "truthy (JStr s) = (s \<noteq> [])"
| "truthy (JList xs) = (xs \<noteq> [])"
| "truthy (JDict kvs) = (kvs \<noteq> [])"

text \<open>
  \<^verbatim>\<open>v == n\<close> for an integer literal \<open>n\<close>: numbers compare by value (both zeros equal
  0; an infinity and NaN equal no integer), \<^verbatim>\<open>True\<close> is 1 and \<^verbatim>\<open>False\<close> is 0, and no other
  value equals a number.
\<close>

fun py_eq_int :: "json \<Rightarrow> int \<Rightarrow> bool" where
  "py_eq_int (JInt i) n = (i = n)"
| "py_eq_int (JBool b) n = ((if b then 1 else 0) = n)"
| "py_eq_int (JFloat (Finite r)) n = (r = of_int n)"
| "py_eq_int (JFloat NegZero) n = (n = 0)"
| "py_eq_int _ n = False"

fun hashable :: "json \<Rightarrow> bool" where
  "hashable (JList xs) = False"
| "hashable (JDict kvs) = False"
| "hashable _ = True"

text \<open>
  Iterating over a \<^verbatim>\<open>str\<close> yields its code points, each a one-character string: in
  UTF-8, a leading byte with the continuation bytes (\<open>0x80\<close> to \<open>0xBF\<close>) that follow it.
\<close>

definition is_continuation :: "char \<Rightarrow> bool" where
  "is_continuation c = (128 \<le> (of_char c :: nat) \<and> (of_char c :: nat) < 192)"

function codepoints :: "string \<Rightarrow> string list" where
  "codepoints [] = []"
| "codepoints (c # cs) =
     (c # takeWhile is_continuation cs) # codepoints (dropWhile is_continuation cs)"
  by pat_completeness auto
termination
  by (relation "measure length") (auto simp: length_dropWhile_le less_Suc_eq_le)

text \<open>\<^verbatim>\<open>sep.join(xs)\<close>.\<close>

fun str_join :: "string \<Rightarrow> string list \<Rightarrow> string" where
  "str_join sep [] = []"
| "str_join sep [x] = x"
| "str_join sep (x # y # ys) = x @ sep @ str_join sep (y # ys)"

text \<open>
  \<^verbatim>\<open>for v in x\<close>: a list yields its elements, a string its characters, a map its keys;
  anything else is not iterable.
\<close>

fun py_iter :: "json \<Rightarrow> exn + json list" where
  "py_iter (JList xs) = Inr xs"
| "py_iter (JStr s) = Inr (map JStr (codepoints s))"
| "py_iter (JDict kvs) = Inr (map (\<lambda>kv. JStr (fst kv)) kvs)"
| "py_iter v = Inl (TypeError NotIterable v)"

text \<open>
  \<^verbatim>\<open>set(x)\<close> hashes the elements in order and raises at the first unhashable one. The
  set is only ever asked for membership, so the model keeps the list of its members.
\<close>

definition py_set :: "json \<Rightarrow> exn + json list" where
  "py_set v =
     (case py_iter v of
        Inl e \<Rightarrow> Inl e
      | Inr xs \<Rightarrow>
          (case find (\<lambda>x. \<not> hashable x) xs of
             Some x \<Rightarrow> Inl (TypeError Unhashable x)
           | None \<Rightarrow> Inr xs))"

text \<open>\<^verbatim>\<open>d.get(k, dflt)\<close> on a map of the document.\<close>

definition dict_get :: "(string \<times> json) list \<Rightarrow> string \<Rightarrow> json \<Rightarrow> json" where
  "dict_get d k dflt = (case map_of d k of None \<Rightarrow> dflt | Some v \<Rightarrow> v)"

text \<open>
  \<^verbatim>\<open>tbl.get(k)\<close> on a table literal of the source, whose keys are strings: the key is
  hashed first, and only a string can equal a key.
\<close>

definition table_get :: "(string \<times> 'a) list \<Rightarrow> json \<Rightarrow> exn + 'a option" where
  "table_get tbl k =
     (if hashable k then Inr (case k of JStr s \<Rightarrow> map_of tbl s | _ \<Rightarrow> None)
      else Inl (TypeError Unhashable k))"

subsection \<open>The emitters\<close>

text \<open>The table \<^verbatim>\<open>formats\<close> of \<^verbatim>\<open>process_string\<close>.\<close>

definition formats :: "(string \<times> string) list" where
  "formats =
     [(''date-time'', ''<datetime>''),
      (''date'', ''<date>''),
      (''email'', ''<email>''),
      (''uri'', ''<uri>'')]"

text \<open>
  The table \<^verbatim>\<open>type_handlers\<close> of \<^verbatim>\<open>process_type\<close> maps a type name to a function; here
  it maps the name to a tag, and \<open>process_type\<close> runs the function the tag stands for.
\<close>

datatype handler =
  HString | HInteger | HNumber | HBoolean | HNull | HArray | HObject

definition type_handlers :: "(string \<times> handler) list" where
  "type_handlers =
     [(''string'', HString),
      (''integer'', HInteger),
      (''number'', HNumber),
      (''boolean'', HBoolean),
      (''null'', HNull),
      (''array'', HArray),
      (''object'', HObject)]"

text \<open>
  \<^verbatim>\<open>
  def process_ref(ref: str) -> str:
      return "<ref>"
  \<close>
\<close>

definition process_ref :: "json \<Rightarrow> string" where
  "process_ref ref = ''<ref>''"

text \<open>
  \<^verbatim>\<open>process_string\<close>, \<^verbatim>\<open>process_array\<close> and \<^verbatim>\<open>process_object\<close> are only called on a
  \<^verbatim>\<open>dict\<close>: by the entry point after its \<^verbatim>\<open>isinstance\<close> check, and by \<^verbatim>\<open>process_type\<close>
  after \<^verbatim>\<open>definition["type"]\<close> has succeeded, which it does on a map only. They take the
  entries of that map.
  \<^verbatim>\<open>
  def process_string(definition):
      if "enum" in definition:
          enum_values = " | ".join(f'"{v}"' for v in definition["enum"])
          return f"[{enum_values}]"
      if "pattern" in definition:
          return f"<pattern {definition['pattern']}>"
      if "format" in definition:
          formats = {...}
          return formats.get(definition["format"], "<string>")
      return "<string>"
  \<close>
\<close>

definition process_string :: "(json \<Rightarrow> string) \<Rightarrow> (string \<times> json) list \<Rightarrow> exn + string" where
  \<open>process_string fmt defn =
     (case map_of defn ''enum'' of
        Some enum \<Rightarrow>
          (case py_iter enum of
             Inl e \<Rightarrow> Inl e
           | Inr vs \<Rightarrow>
               Inr (''['' @ str_join '' | '' (map (\<lambda>v. ''"'' @ py_str fmt v @ ''"'') vs) @ '']''))
      | None \<Rightarrow>
          (case map_of defn ''pattern'' of
             Some pat \<Rightarrow> Inr (''<pattern '' @ py_str fmt pat @ ''>'')
           | None \<Rightarrow>
               (case map_of defn ''format'' of
                  Some f \<Rightarrow>
                    (case table_get formats f of
                       Inl e \<Rightarrow> Inl e
                     | Inr None \<Rightarrow> Inr ''<string>''
                     | Inr (Some t) \<Rightarrow> Inr t)
                | None \<Rightarrow> Inr ''<string>'')))\<close>

text \<open>The suffix \<^verbatim>\<open>" | \<close>\<open>\<epsilon>\<close>\<^verbatim>\<open>"\<close> of an optional property; \<open>\<epsilon>\<close> is U+03B5, in UTF-8 the bytes CE B5.\<close>

definition optional_marker :: string where
  "optional_marker = '' | '' @ [CHR 0xCE, CHR 0xB5]"

text \<open>\<^verbatim>\<open>"{ " + ", ".join(rules) + " }"\<close>.\<close>

definition braces :: "string list \<Rightarrow> string" where
  "braces rules = ''{ '' @ str_join '', '' rules @ '' }''"

text \<open>A value inside a map is smaller than the map: the recursion below descends.\<close>

lemma size_map_of: "map_of d k = Some v \<Longrightarrow> size v < size (JDict d)"
  by (induction d) (auto split: if_splits)

lemma size_dict_get_truthy:
  "truthy (dict_get d k (JDict [])) \<Longrightarrow> size (dict_get d k (JDict [])) < size (JDict d)"
  by (auto simp: dict_get_def dest: size_map_of split: option.splits)

lemma size_dict_get_props:
  "JDict props = dict_get d k (JDict []) \<Longrightarrow> truthy (dict_get d k (JDict [])) \<Longrightarrow>
   size (JDict props) < size (JDict d)"
  using size_dict_get_truthy [of d k] by simp

text \<open>
  The mutually recursive helpers. \<open>process_properties\<close> is the loop of
  \<^verbatim>\<open>process_object\<close> over \<^verbatim>\<open>properties.items()\<close>: it returns the list \<^verbatim>\<open>rules\<close>, or the
  exception of the first property that fails, a \<^verbatim>\<open>ValueError\<close> rewrapped with the name
  of the property and anything else as it is.
  \<^verbatim>\<open>
  def process_property(name, definition, is_required):
      if not isinstance(definition, dict):
          raise ValueError(f"Invalid property definition for {name}")
      if "$ref" in definition:
          return process_ref(definition["$ref"])
      property_rule = f'"{name}" : {process_type(definition)}'
      if not is_required:
          property_rule += " | \<close>\<open>\<epsilon>\<close>\<^verbatim>\<open>"
      return property_rule

  def process_type(definition):
      if "type" not in definition:
          raise ValueError("Missing type in definition")
      prop_type = definition["type"]
      type_handlers = {...}
      handler = type_handlers.get(prop_type)
      if not handler:
          raise ValueError(f"Unsupported type: {prop_type}")
      return handler(definition)

  def process_array(definition):
      if "items" not in definition:
          raise ValueError("Array definition missing items")
      items_type = process_type(definition["items"])
      min_items = definition.get("minItems", 0)
      max_items = definition.get("maxItems", "")
      if min_items == 0 and not max_items:
          return f"[{items_type}*]"
      elif min_items == 1 and not max_items:
          return f"[{items_type}+]"
      else:
          return f"[{items_type}]"

  def process_object(definition):
      properties = definition.get("properties", {})
      required = set(definition.get("required", []))
      if not properties:
          return "{}"
      rules = []
      for name, prop in properties.items():
          try:
              rules.append(process_property(name, prop, name in required))
          except ValueError as e:
              raise ValueError(f"Error processing property '{name}': {str(e)}")
      additional_props = definition.get("additionalProperties", {})
      if additional_props:
          if isinstance(additional_props, bool):
              if additional_props:
                  rules.append('"*" : <any>')
          else:
              rules.append(f'"*" : {process_type(additional_props)}')
      return "{ " + ", ".join(rules) + " }"
  \<close>
  In \<^verbatim>\<open>process_type\<close>, \<^verbatim>\<open>"type" in definition\<close> is a key test on a map, a substring test
  on a string and a membership test on a list, and raises on any other value; where it
  holds of a string or a list, the subscript \<^verbatim>\<open>definition["type"]\<close> raises.
\<close>

function process_property :: "(json \<Rightarrow> string) \<Rightarrow> string \<Rightarrow> json \<Rightarrow> bool \<Rightarrow> exn + string"
  and process_type :: "(json \<Rightarrow> string) \<Rightarrow> json \<Rightarrow> exn + string"
  and process_array :: "(json \<Rightarrow> string) \<Rightarrow> (string \<times> json) list \<Rightarrow> exn + string"
  and process_object :: "(json \<Rightarrow> string) \<Rightarrow> (string \<times> json) list \<Rightarrow> exn + string"
  and process_properties ::
    "(json \<Rightarrow> string) \<Rightarrow> json list \<Rightarrow> (string \<times> json) list \<Rightarrow> exn + string list"
where
  \<open>process_property fmt name defn is_required =
     (case defn of
        JDict d \<Rightarrow>
          (case map_of d ''$ref'' of
             Some ref \<Rightarrow> Inr (process_ref ref)
           | None \<Rightarrow>
               (case process_type fmt defn of
                  Inl e \<Rightarrow> Inl e
                | Inr t \<Rightarrow>
                    Inr ((''"'' @ name @ ''" : '' @ t) @
                         (if \<not> is_required then optional_marker else []))))
      | _ \<Rightarrow> Inl (ValueError (''Invalid property definition for '' @ name)))\<close>
| \<open>process_type fmt defn =
     (case defn of
        JDict d \<Rightarrow>
          (case map_of d ''type'' of
             None \<Rightarrow> Inl (ValueError ''Missing type in definition'')
           | Some prop_type \<Rightarrow>
               (case table_get type_handlers prop_type of
                  Inl e \<Rightarrow> Inl e
                | Inr None \<Rightarrow> Inl (ValueError (''Unsupported type: '' @ py_str fmt prop_type))
                | Inr (Some h) \<Rightarrow>
                    (case h of
                       HString \<Rightarrow> process_string fmt d
                     | HInteger \<Rightarrow> Inr ''<integer>''
                     | HNumber \<Rightarrow> Inr ''<number>''
                     | HBoolean \<Rightarrow> Inr ''<boolean>''
                     | HNull \<Rightarrow> Inr ''null''
                     | HArray \<Rightarrow> process_array fmt d
                     | HObject \<Rightarrow> process_object fmt d)))
      | JStr s \<Rightarrow>
          (if sublist ''type'' s then Inl (TypeError BadIndex defn)
           else Inl (ValueError ''Missing type in definition''))
      | JList xs \<Rightarrow>
          (if JStr ''type'' \<in> set xs then Inl (TypeError BadIndex defn)
           else Inl (ValueError ''Missing type in definition''))
      | _ \<Rightarrow> Inl (TypeError NotContainer defn))\<close>
| \<open>process_array fmt d =
     (case map_of d ''items'' of
        None \<Rightarrow> Inl (ValueError ''Array definition missing items'')
      | Some items \<Rightarrow>
          (case process_type fmt items of
             Inl e \<Rightarrow> Inl e
           | Inr items_type \<Rightarrow>
               (let min_items = dict_get d ''minItems'' (JInt 0);
                    max_items = dict_get d ''maxItems'' (JStr [])
                in if py_eq_int min_items 0 \<and> \<not> truthy max_items then
                     Inr (''['' @ items_type @ ''*]'')
                   else if py_eq_int min_items 1 \<and> \<not> truthy max_items then
                     Inr (''['' @ items_type @ ''+]'')
                   else Inr (''['' @ items_type @ '']''))))\<close>
| \<open>process_object fmt d =
     (let properties = dict_get d ''properties'' (JDict []) in
      case py_set (dict_get d ''required'' (JList [])) of
        Inl e \<Rightarrow> Inl e
      | Inr required \<Rightarrow>
          if \<not> truthy properties then Inr ''{}''
          else
            (case properties of
               JDict props \<Rightarrow>
                 (case process_properties fmt required props of
                    Inl e \<Rightarrow> Inl e
                  | Inr rules \<Rightarrow>
                      (let additional_props = dict_get d ''additionalProperties'' (JDict []) in
                       if truthy additional_props then
                         (case additional_props of
                            JBool b \<Rightarrow>
                              (if b then Inr (braces (rules @ [''"*" : <any>'']))
                               else Inr (braces rules))
                          | _ \<Rightarrow>
                              (case process_type fmt additional_props of
                                 Inl e \<Rightarrow> Inl e
                               | Inr t \<Rightarrow> Inr (braces (rules @ [''"*" : '' @ t]))))
                       else Inr (braces rules)))
             | _ \<Rightarrow> Inl (AttributeError properties)))\<close>
| \<open>process_properties fmt required [] = Inr []\<close>
| \<open>process_properties fmt required ((name, prop) # rest) =
     (case process_property fmt name prop (JStr name \<in> set required) of
        Inl (ValueError m) \<Rightarrow>
          Inl (ValueError
                (''Error processing property '' @ [CHR 0x27] @ name @ [CHR 0x27] @ '': '' @ m))
      | Inl e \<Rightarrow> Inl e
      | Inr rule \<Rightarrow>
          (case process_properties fmt required rest of
             Inl e \<Rightarrow> Inl e
           | Inr rules \<Rightarrow> Inr (rule # rules)))\<close>
  by pat_completeness auto
termination
  by (relation "measure (\<lambda>call. case call of
           Inl (Inl (fmt, name, defn, is_required)) \<Rightarrow> 4 * size defn + 3
         | Inl (Inr (fmt, defn)) \<Rightarrow> 4 * size defn + 2
         | Inr (Inl (fmt, d)) \<Rightarrow> 4 * size (JDict d) + 1
         | Inr (Inr (Inl (fmt, d))) \<Rightarrow> 4 * size (JDict d) + 1
         | Inr (Inr (Inr (fmt, required, props))) \<Rightarrow> 4 * size (JDict props) + 4)")
     (auto dest: size_map_of size_dict_get_truthy size_dict_get_props)

text \<open>
  The equations are unfolded by name, one function at a time, in the proofs below.
\<close>

declare process_property.simps [simp del] process_type.simps [simp del]
  process_array.simps [simp del] process_object.simps [simp del]
  process_properties.simps [simp del]

text \<open>
  The entry point.
  \<^verbatim>\<open>
  if not isinstance(schema, dict):
      raise ValueError("Schema must be a dictionary")
  if schema.get("type") != "object":
      raise ValueError("Root schema must be an object type")
  try:
      return process_object(schema)
  except Exception as e:
      raise ValueError(f"Error processing schema: {str(e)}")
  \<close>
\<close>

definition json_schema_to_gbnf ::
  "(json \<Rightarrow> string) \<Rightarrow> (exn \<Rightarrow> string) \<Rightarrow> json \<Rightarrow> exn + string" where
  "json_schema_to_gbnf fmt rt schema =
     (case schema of
        JDict d \<Rightarrow>
          (if dict_get d ''type'' JNull \<noteq> JStr ''object'' then
             Inl (ValueError ''Root schema must be an object type'')
           else
             (case process_object fmt d of
                Inl e \<Rightarrow> Inl (ValueError (''Error processing schema: '' @ exc_str rt e))
              | Inr gbnf \<Rightarrow> Inr gbnf))
      | _ \<Rightarrow> Inl (ValueError ''Schema must be a dictionary''))"

text \<open>
  The characters a fragment can end with: \<^verbatim>\<open>>\<close> of a token, \<^verbatim>\<open>]\<close> of an enumeration or an
  array, \<^verbatim>\<open>}\<close> of an object and the last letter of \<^verbatim>\<open>null\<close>.
\<close>

definition closing :: "char set" where
  "closing = {CHR ''>'', CHR '']'', CHR ''}'', CHR ''l''}"

text \<open>
  Stand-ins for the two parameters in the concrete examples below: every non-string value
  prints as \<^verbatim>\<open><value>\<close> and every exception of the interpreter as \<^verbatim>\<open><runtime error>\<close>.
\<close>

definition ex_fmt :: "json \<Rightarrow> string" where
  "ex_fmt v = ''<value>''"

definition ex_rt :: "exn \<Rightarrow> string" where
  "ex_rt e = ''<runtime error>''"

text \<open>A printer that prints the two zeros as Python does, and is \<open>ex_fmt\<close> elsewhere.\<close>

definition zero_fmt :: "json \<Rightarrow> string" where
  "zero_fmt v =
     (if v = JFloat (Finite 0) then ''0.0''
      else if v = JFloat NegZero then ''-0.0''
      else ex_fmt v)"

text \<open>The definitions that evaluating the compiler on a concrete document unfolds.\<close>

lemmas gbnf_eval =
  json_schema_to_gbnf_def dict_get_def table_get_def type_handlers_def formats_def
  process_string_def process_ref_def py_set_def py_str_def exc_str_def braces_def
  optional_marker_def ex_fmt_def ex_rt_def
  process_property.simps process_type.simps process_array.simps process_object.simps
  process_properties.simps

section \<open>The root check\<close>

text \<open>
  Claim C5. For every input whose root is not a map, or whose root \<^verbatim>\<open>type\<close> field is not
  equal to \<^verbatim>\<open>"object"\<close> (absent included), the compiler fails with a \<^verbatim>\<open>ValueError\<close> of the
  entry point (the spec's InvalidSchema): \<^verbatim>\<open>Schema must be a dictionary\<close> in the first
  case, \<^verbatim>\<open>Root schema must be an object type\<close> in the second. The result is the error:
  there is no grammar output.
\<close>

theorem invalid_root_rejected:
  \<open>((\<forall>d. schema \<noteq> JDict d) \<longrightarrow>
      json_schema_to_gbnf fmt rt schema = Inl (ValueError ''Schema must be a dictionary'')) \<and>
    (\<forall>d. schema = JDict d \<and> map_of d ''type'' \<noteq> Some (JStr ''object'') \<longrightarrow>
      json_schema_to_gbnf fmt rt schema =
        Inl (ValueError ''Root schema must be an object type''))\<close>
proof (intro conjI allI impI)
  assume "\<forall>d. schema \<noteq> JDict d"
  then show "json_schema_to_gbnf fmt rt schema = Inl (ValueError ''Schema must be a dictionary'')"
    by (cases schema) (simp_all add: json_schema_to_gbnf_def)
next
  fix d
  assume "schema = JDict d \<and> map_of d ''type'' \<noteq> Some (JStr ''object'')"
  then show "json_schema_to_gbnf fmt rt schema =
      Inl (ValueError ''Root schema must be an object type'')"
    by (auto simp: json_schema_to_gbnf_def dict_get_def split: option.splits)
qed

theorem invalid_root_rejected_witness:
  \<open>json_schema_to_gbnf ex_fmt ex_rt (JList [JStr ''object'']) =
      Inl (ValueError ''Schema must be a dictionary'') \<and>
    json_schema_to_gbnf ex_fmt ex_rt
      (JDict [(''type'', JStr ''array''), (''items'', JDict [(''type'', JStr ''string'')])]) =
      Inl (ValueError ''Root schema must be an object type'') \<and>
    json_schema_to_gbnf ex_fmt ex_rt (JDict [(''properties'', JDict [])]) =
      Inl (ValueError ''Root schema must be an object type'')\<close>
  using invalid_root_rejected [of "JList [JStr ''object'']" ex_fmt ex_rt]
    invalid_root_rejected
      [of "JDict [(''type'', JStr ''array''), (''items'', JDict [(''type'', JStr ''string'')])]"
          ex_fmt ex_rt]
    invalid_root_rejected [of "JDict [(''properties'', JDict [])]" ex_fmt ex_rt]
  by simp

section \<open>Type dispatch\<close>

text \<open>The names \<^verbatim>\<open>type_handlers\<close> knows, and the three outcomes of looking a value up.\<close>

lemma supported_names:
  "fst ` set type_handlers =
     {''object'', ''array'', ''string'', ''integer'', ''number'', ''boolean'', ''null''}"
  by (auto simp: type_handlers_def)

lemma table_get_Some:
  "table_get tbl t = Inr (Some h) \<Longrightarrow> \<exists>name. t = JStr name \<and> name \<in> fst ` set tbl"
  by (cases t) (auto simp: table_get_def dest!: map_of_SomeD intro: rev_image_eqI split: if_splits)

lemma table_get_scalar:
  "hashable t \<Longrightarrow> t \<notin> JStr ` fst ` set tbl \<Longrightarrow> table_get tbl t = Inr None"
  by (cases t) (auto simp: table_get_def map_of_eq_None_iff)

lemma table_get_unhashable:
  "\<not> hashable t \<Longrightarrow> table_get tbl t = Inl (TypeError Unhashable t)"
  by (simp add: table_get_def)

text \<open>
  Claim C6, as amended. Type dispatch fails closed: \<open>process_type\<close> returns a fragment
  only for a map node whose \<^verbatim>\<open>type\<close> is one of the seven supported names (last
  conjunct), so every other node, a non-map one included, fails. A map node without a
  \<^verbatim>\<open>type\<close> key fails with \<^verbatim>\<open>Missing type in definition\<close>. A map node whose \<^verbatim>\<open>type\<close> is
  a string, number, boolean or null outside the supported set fails with
  \<^verbatim>\<open>Unsupported type:\<close> followed by that value's text. A map node whose \<^verbatim>\<open>type\<close> is a
  list or a map fails too, but with the interpreter's unhashable-type error, which is
  not the unsupported-type error and which \<^verbatim>\<open>process_object\<close> does not rewrap with the
  property name.
\<close>

theorem type_dispatch_fails_closed:
  \<open>(\<forall>d. defn = JDict d \<and> map_of d ''type'' = None \<longrightarrow>
      process_type fmt defn = Inl (ValueError ''Missing type in definition'')) \<and>
    (\<forall>d t. defn = JDict d \<and> map_of d ''type'' = Some t \<and> hashable t \<and>
        t \<notin> JStr ` {''object'', ''array'', ''string'', ''integer'', ''number'', ''boolean'', ''null''} \<longrightarrow>
      process_type fmt defn = Inl (ValueError (''Unsupported type: '' @ py_str fmt t))) \<and>
    (\<forall>d t. defn = JDict d \<and> map_of d ''type'' = Some t \<and> \<not> hashable t \<longrightarrow>
      process_type fmt defn = Inl (TypeError Unhashable t)) \<and>
    (\<forall>g. process_type fmt defn = Inr g \<longrightarrow>
      (\<exists>d name. defn = JDict d \<and> map_of d ''type'' = Some (JStr name) \<and>
         name \<in> {''object'', ''array'', ''string'', ''integer'', ''number'', ''boolean'', ''null''}))\<close>
proof (intro conjI allI impI; (elim conjE)?)
  fix d
  assume "defn = JDict d" "map_of d ''type'' = None"
  then show "process_type fmt defn = Inl (ValueError ''Missing type in definition'')"
    by (simp add: process_type.simps)
next
  fix d t
  assume node: "defn = JDict d" "map_of d ''type'' = Some t"
    and h: "hashable t"
    and t: "t \<notin> JStr ` {''object'', ''array'', ''string'', ''integer'', ''number'', ''boolean'', ''null''}"
  have "t \<notin> JStr ` fst ` set type_handlers"
    unfolding supported_names by (rule t)
  with h have "table_get type_handlers t = Inr None"
    by (rule table_get_scalar)
  with node show "process_type fmt defn = Inl (ValueError (''Unsupported type: '' @ py_str fmt t))"
    by (simp add: process_type.simps)
next
  fix d t
  assume "defn = JDict d" "map_of d ''type'' = Some t" "\<not> hashable t"
  then show "process_type fmt defn = Inl (TypeError Unhashable t)"
    by (simp add: process_type.simps table_get_unhashable)
next
  fix g
  assume ok: "process_type fmt defn = Inr g"
  show "\<exists>d name. defn = JDict d \<and> map_of d ''type'' = Some (JStr name) \<and>
         name \<in> {''object'', ''array'', ''string'', ''integer'', ''number'', ''boolean'', ''null''}"
  proof (cases defn)
    case (JDict d)
    with ok obtain t where t: "map_of d ''type'' = Some t"
      by (cases "map_of d ''type''") (auto simp: process_type.simps)
    with ok JDict obtain h where "table_get type_handlers t = Inr (Some h)"
      by (auto simp: process_type.simps split: sum.splits option.splits)
    from table_get_Some [OF this] obtain name
      where name: "t = JStr name" "name \<in> fst ` set type_handlers"
      by blast
    show ?thesis
    proof (intro exI conjI)
      show "defn = JDict d" by fact
      show "map_of d ''type'' = Some (JStr name)" using t name(1) by simp
      show "name \<in> {''object'', ''array'', ''string'', ''integer'', ''number'', ''boolean'', ''null''}"
        using name(2) unfolding supported_names .
    qed
  qed (use ok in \<open>auto simp: process_type.simps split: if_splits\<close>)
qed

theorem type_dispatch_fails_closed_witness:
  \<open>process_type ex_fmt (JDict [(''items'', JDict [(''type'', JStr ''string'')])]) =
      Inl (ValueError ''Missing type in definition'') \<and>
    process_type ex_fmt (JDict [(''type'', JStr ''tuple'')]) =
      Inl (ValueError ''Unsupported type: tuple'') \<and>
    process_type ex_fmt (JDict [(''type'', JNull)]) =
      Inl (ValueError ''Unsupported type: <value>'') \<and>
    process_type ex_fmt (JDict [(''type'', JDict [])]) =
      Inl (TypeError Unhashable (JDict [])) \<and>
    process_type ex_fmt (JDict [(''type'', JStr ''integer'')]) = Inr ''<integer>''\<close>
  using type_dispatch_fails_closed [of "JDict [(''items'', JDict [(''type'', JStr ''string'')])]" ex_fmt]
    type_dispatch_fails_closed [of "JDict [(''type'', JStr ''tuple'')]" ex_fmt]
    type_dispatch_fails_closed [of "JDict [(''type'', JNull)]" ex_fmt]
    type_dispatch_fails_closed [of "JDict [(''type'', JDict [])]" ex_fmt]
    type_dispatch_fails_closed [of "JDict [(''type'', JStr ''integer'')]" ex_fmt]
  by (simp add: gbnf_eval)

text \<open>
  Claim C6 as stated fails where the \<^verbatim>\<open>type\<close> value is a list, which JSON Schema allows:
  for \<^verbatim>\<open>{"type": ["string", "null"]}\<close> the lookup in \<^verbatim>\<open>type_handlers\<close> raises the
  unhashable-type error, not \<^verbatim>\<open>Unsupported type\<close>, and at the entry point it surfaces
  without the name of the property. It also fails for a node that is not a map: a
  boolean schema such as \<^verbatim>\<open>"items": true\<close> has no \<^verbatim>\<open>type\<close> field, and the key test
  raises instead of reporting the missing type.
\<close>

theorem type_dispatch_counterexample:
  \<open>process_type ex_fmt (JDict [(''type'', JList [JStr ''string'', JStr ''null''])]) =
      Inl (TypeError Unhashable (JList [JStr ''string'', JStr ''null''])) \<and>
    json_schema_to_gbnf ex_fmt ex_rt
      (JDict [(''type'', JStr ''object''),
              (''properties'',
                 JDict [(''nick'', JDict [(''type'', JList [JStr ''string'', JStr ''null''])])])]) =
      Inl (ValueError ''Error processing schema: <runtime error>'') \<and>
    process_type ex_fmt (JBool True) = Inl (TypeError NotContainer (JBool True))\<close>
  by (simp add: gbnf_eval)

section \<open>Array cardinality\<close>

text \<open>
  The cardinality policy where the bounds are integers: with no \<^verbatim>\<open>maxItems\<close>, a \<^verbatim>\<open>minItems\<close>
  of 0 (or none) gives the starred form and a \<^verbatim>\<open>minItems\<close> of 1 the plus form; a nonzero
  \<^verbatim>\<open>maxItems\<close>, or a \<^verbatim>\<open>minItems\<close> of 2 or more, gives the unquantified form.
\<close>

lemma array_cardinality:
  \<open>map_of d ''items'' = Some items \<Longrightarrow> process_type fmt items = Inr t \<Longrightarrow>
    (map_of d ''maxItems'' = None \<and>
       (map_of d ''minItems'' = None \<or> map_of d ''minItems'' = Some (JInt 0)) \<longrightarrow>
       process_array fmt d = Inr (''['' @ t @ ''*]'')) \<and>
    (map_of d ''maxItems'' = None \<and> map_of d ''minItems'' = Some (JInt 1) \<longrightarrow>
       process_array fmt d = Inr (''['' @ t @ ''+]'')) \<and>
    ((\<exists>m. map_of d ''maxItems'' = Some (JInt m) \<and> m \<noteq> 0) \<or>
     (\<exists>n. map_of d ''minItems'' = Some (JInt n) \<and> 2 \<le> n) \<longrightarrow>
       process_array fmt d = Inr (''['' @ t @ '']''))\<close>
  by (auto simp: process_array.simps dict_get_def)

theorem array_cardinality_witness:
  \<open>process_array ex_fmt [(''type'', JStr ''array''), (''items'', JDict [(''type'', JStr ''string'')])] =
      Inr ''[<string>*]'' \<and>
    process_array ex_fmt
      [(''type'', JStr ''array''), (''items'', JDict [(''type'', JStr ''string'')]),
       (''minItems'', JInt 1)] = Inr ''[<string>+]'' \<and>
    process_array ex_fmt
      [(''type'', JStr ''array''), (''items'', JDict [(''type'', JStr ''string'')]),
       (''minItems'', JInt 2)] = Inr ''[<string>]'' \<and>
    process_array ex_fmt
      [(''type'', JStr ''array''), (''items'', JDict [(''type'', JStr ''string'')]),
       (''maxItems'', JInt 10)] = Inr ''[<string>]''\<close>
  using
    array_cardinality
      [of "[(''type'', JStr ''array''), (''items'', JDict [(''type'', JStr ''string'')])]"
          "JDict [(''type'', JStr ''string'')]" ex_fmt "''<string>''"]
    array_cardinality
      [of "[(''type'', JStr ''array''), (''items'', JDict [(''type'', JStr ''string'')]),
            (''minItems'', JInt 1)]"
          "JDict [(''type'', JStr ''string'')]" ex_fmt "''<string>''"]
    array_cardinality
      [of "[(''type'', JStr ''array''), (''items'', JDict [(''type'', JStr ''string'')]),
            (''minItems'', JInt 2)]"
          "JDict [(''type'', JStr ''string'')]" ex_fmt "''<string>''"]
    array_cardinality
      [of "[(''type'', JStr ''array''), (''items'', JDict [(''type'', JStr ''string'')]),
            (''maxItems'', JInt 10)]"
          "JDict [(''type'', JStr ''string'')]" ex_fmt "''<string>''"]
  by (simp add: gbnf_eval)

text \<open>
  Claim C1 says that any declared \<^verbatim>\<open>maxItems\<close> yields the unquantified form. The code
  tests \<^verbatim>\<open>not max_items\<close> against the default \<^verbatim>\<open>""\<close>, so a declared \<^verbatim>\<open>maxItems\<close> of 0
  is taken for an undeclared one: the array node
  \<^verbatim>\<open>{"type": "array", "items": {"type": "string"}, "maxItems": 0}\<close> compiles to
  \<^verbatim>\<open>[<string>*]\<close>, where the claim has \<^verbatim>\<open>[<string>]\<close>.
\<close>

theorem max_items_zero_starred:
  \<open>process_array ex_fmt
      [(''type'', JStr ''array''), (''items'', JDict [(''type'', JStr ''string'')]),
       (''maxItems'', JInt 0)] = Inr ''[<string>*]'' \<and>
    json_schema_to_gbnf ex_fmt ex_rt
      (JDict [(''type'', JStr ''object''),
              (''properties'',
                 JDict [(''tags'',
                   JDict [(''type'', JStr ''array''), (''items'', JDict [(''type'', JStr ''string'')]),
                          (''maxItems'', JInt 0)])]),
              (''required'', JList [JStr ''tags''])]) = Inr ''{ "tags" : [<string>*] }''\<close>
  by (simp add: gbnf_eval)

section \<open>Object members\<close>

text \<open>Every fragment that \<open>process_type\<close> returns ends with a closing character.\<close>

lemma process_string_last:
  "process_string fmt d = Inr t \<Longrightarrow> t \<noteq> [] \<and> last t \<in> closing"
  by (auto simp: process_string_def closing_def table_get_def formats_def
      split: option.splits sum.splits if_splits json.splits)

lemma process_array_last:
  "process_array fmt d = Inr t \<Longrightarrow> t \<noteq> [] \<and> last t \<in> closing"
  by (auto simp: process_array.simps closing_def Let_def split: option.splits sum.splits if_splits)

lemma process_object_last:
  "process_object fmt d = Inr t \<Longrightarrow> t \<noteq> [] \<and> last t \<in> closing"
  by (auto simp: process_object.simps closing_def braces_def Let_def
      split: option.splits sum.splits if_splits json.splits)

lemma process_type_last:
  "process_type fmt v = Inr t \<Longrightarrow> t \<noteq> [] \<and> last t \<in> closing"
proof (cases v)
  case (JDict d)
  assume ok: "process_type fmt v = Inr t"
  show ?thesis
  proof (cases "map_of d ''type''")
    case None
    with ok JDict show ?thesis by (simp add: process_type.simps)
  next
    case (Some ty)
    show ?thesis
    proof (cases "table_get type_handlers ty")
      case (Inl e)
      with ok JDict Some show ?thesis by (simp add: process_type.simps)
    next
      case (Inr h)
      then show ?thesis
      proof (cases h)
        case None
        with ok JDict Some Inr show ?thesis by (simp add: process_type.simps)
      next
        case (Some hd)
        with ok JDict \<open>map_of d ''type'' = Some ty\<close> Inr show ?thesis
          using process_string_last [of fmt d t] process_array_last [of fmt d t]
            process_object_last [of fmt d t]
          by (cases hd) (auto simp: process_type.simps closing_def)
      qed
    qed
  qed
qed (auto simp: process_type.simps split: if_splits)

lemma suffix_last: "suffix s m \<Longrightarrow> s \<noteq> [] \<Longrightarrow> last m = last s"
  by (auto simp: suffix_def)

lemma marker_not_closing: "optional_marker \<noteq> [] \<and> last optional_marker \<notin> closing"
  by (simp add: optional_marker_def closing_def)

text \<open>
  A property whose definition is a map without \<^verbatim>\<open>$ref\<close> and whose type compiles: the
  member is \<^verbatim>\<open>"<name>" : <fragment>\<close>, followed by the optional marker when the name is
  not required, and it ends with the marker if and only if the name is not required.
\<close>

theorem typed_property_member:
  \<open>map_of d ''$ref'' = None \<Longrightarrow> process_type fmt (JDict d) = Inr t \<Longrightarrow>
    process_property fmt name (JDict d) is_required =
      Inr (''"'' @ name @ ''" : '' @ t @ (if is_required then [] else optional_marker)) \<and>
    (\<forall>m. process_property fmt name (JDict d) is_required = Inr m \<longrightarrow>
       (suffix optional_marker m \<longleftrightarrow> \<not> is_required))\<close>
proof -
  assume noref: "map_of d ''$ref'' = None" and t: "process_type fmt (JDict d) = Inr t"
  let ?member = \<open>''"'' @ name @ ''" : '' @ t @ (if is_required then [] else optional_marker)\<close>
  have member: "process_property fmt name (JDict d) is_required = Inr ?member"
    using noref t by (simp add: process_property.simps)
  have "suffix optional_marker ?member \<longleftrightarrow> \<not> is_required"
  proof (cases is_required)
    case True
    from process_type_last [OF t] have "last ?member \<in> closing"
      using True by simp
    moreover have "last ?member = last optional_marker" if "suffix optional_marker ?member"
      using that marker_not_closing by (intro suffix_last) simp_all
    ultimately show ?thesis
      using True marker_not_closing by auto
  next
    case False
    have \<open>?member = (''"'' @ name @ ''" : '' @ t) @ optional_marker\<close>
      using False by simp
    then have "suffix optional_marker ?member"
      by (simp only: suffix_appendI suffix_order.refl)
    with False show ?thesis by simp
  qed
  with member show ?thesis by simp
qed

theorem typed_property_member_witness:
  \<open>process_property ex_fmt ''name'' (JDict [(''type'', JStr ''string'')]) True =
      Inr ''"name" : <string>'' \<and>
    \<not> suffix optional_marker ''"name" : <string>'' \<and>
    process_property ex_fmt ''name'' (JDict [(''type'', JStr ''string'')]) False =
      Inr (''"name" : <string> | '' @ [CHR 0xCE, CHR 0xB5]) \<and>
    suffix optional_marker (''"name" : <string> | '' @ [CHR 0xCE, CHR 0xB5])\<close>
  using
    typed_property_member [of "[(''type'', JStr ''string'')]" ex_fmt "''<string>''" "''name''" True]
    typed_property_member [of "[(''type'', JStr ''string'')]" ex_fmt "''<string>''" "''name''" False]
  by (simp add: gbnf_eval)

text \<open>
  Claim C2 says that every member, one defined by \<^verbatim>\<open>$ref\<close> included, is
  \<^verbatim>\<open>"<name>" : <fragment>\<close> and carries the optional marker exactly when the name is not
  required. \<^verbatim>\<open>process_property\<close> returns the placeholder of \<^verbatim>\<open>process_ref\<close> before it
  builds the member: a \<^verbatim>\<open>$ref\<close> property is emitted as the bare \<^verbatim>\<open><ref>\<close>, without its
  name, and without the marker whether it is required or not.
\<close>

theorem ref_property_unnamed:
  \<open>process_property ex_fmt ''owner'' (JDict [(''$ref'', JStr ''#/definitions/user'')]) True =
      Inr ''<ref>'' \<and>
    process_property ex_fmt ''owner'' (JDict [(''$ref'', JStr ''#/definitions/user'')]) False =
      Inr ''<ref>'' \<and>
    json_schema_to_gbnf ex_fmt ex_rt
      (JDict [(''type'', JStr ''object''),
              (''properties'',
                 JDict [(''owner'', JDict [(''$ref'', JStr ''#/definitions/user'')]),
                        (''name'', JDict [(''type'', JStr ''string'')])])]) =
      Inr (''{ <ref>, "name" : <string> | '' @ [CHR 0xCE, CHR 0xB5] @ '' }'')\<close>
  by (simp add: gbnf_eval)

section \<open>String constraints\<close>

lemma py_str_JStr: "py_str fmt (JStr s) = s"
  by (simp add: py_str_def)

lemma process_type_string:
  "map_of d ''type'' = Some (JStr ''string'') \<Longrightarrow> process_type fmt (JDict d) = process_string fmt d"
  by (simp add: process_type.simps table_get_def type_handlers_def)

lemma formats_get:
  "hashable f \<Longrightarrow>
   table_get formats f =
     Inr (if f = JStr ''date-time'' then Some ''<datetime>''
          else if f = JStr ''date'' then Some ''<date>''
          else if f = JStr ''email'' then Some ''<email>''
          else if f = JStr ''uri'' then Some ''<uri>''
          else None)"
  by (cases f) (simp_all add: table_get_def formats_def)

text \<open>
  Claim C3. For every string node one constraint is consulted, by the priority
  \<^verbatim>\<open>enum\<close>, \<^verbatim>\<open>pattern\<close>, \<^verbatim>\<open>format\<close>, fallback:
  \<^item> \<^verbatim>\<open>enum\<close> present: the bracketed alternation of its values, each printed and quoted,
    in the order of the list, whatever \<^verbatim>\<open>pattern\<close> and \<^verbatim>\<open>format\<close> are
    (\<open>py_str fmt (JStr s) = s\<close>: a string value is quoted as it is). The code iterates
    over the value, so where a string or a map stands in place of the list, the
    alternation is that of its characters or of its keys, and \<^verbatim>\<open>pattern\<close> and \<^verbatim>\<open>format\<close>
    are not consulted either;
  \<^item> else \<^verbatim>\<open>pattern\<close> present: the marker with the pattern's text verbatim, whatever
    \<^verbatim>\<open>format\<close> is;
  \<^item> else \<^verbatim>\<open>format\<close> present: the token of the fixed table for \<^verbatim>\<open>date-time\<close>, \<^verbatim>\<open>date\<close>,
    \<^verbatim>\<open>email\<close> and \<^verbatim>\<open>uri\<close>, and \<^verbatim>\<open><string>\<close> for any other string, and for a number, a
    boolean and null as well;
  \<^item> else \<^verbatim>\<open><string>\<close>.

  JSON Schema has a list for \<^verbatim>\<open>enum\<close> and a string for \<^verbatim>\<open>format\<close>, so this covers every
  string node of a schema. Of other documents it leaves out only those whose consulted
  value the interpreter can neither iterate over nor hash, the subject of the theorem
  after the next.
\<close>

theorem string_constraint_priority:
  \<open>map_of d ''type'' = Some (JStr ''string'') \<Longrightarrow>
    (\<forall>vs. map_of d ''enum'' = Some (JList vs) \<longrightarrow>
       process_type fmt (JDict d) =
         Inr (''['' @ str_join '' | '' (map (\<lambda>v. ''"'' @ py_str fmt v @ ''"'') vs) @ '']'')) \<and>
    (\<forall>s. map_of d ''enum'' = Some (JStr s) \<longrightarrow>
       process_type fmt (JDict d) =
         Inr (''['' @ str_join '' | '' (map (\<lambda>c. ''"'' @ c @ ''"'') (codepoints s)) @ '']'')) \<and>
    (\<forall>kvs. map_of d ''enum'' = Some (JDict kvs) \<longrightarrow>
       process_type fmt (JDict d) =
         Inr (''['' @ str_join '' | '' (map (\<lambda>kv. ''"'' @ fst kv @ ''"'') kvs) @ '']'')) \<and>
    (\<forall>p. map_of d ''enum'' = None \<and> map_of d ''pattern'' = Some p \<longrightarrow>
       process_type fmt (JDict d) = Inr (''<pattern '' @ py_str fmt p @ ''>'')) \<and>
    (\<forall>f. map_of d ''enum'' = None \<and> map_of d ''pattern'' = None \<and>
         map_of d ''format'' = Some f \<and> hashable f \<longrightarrow>
       process_type fmt (JDict d) =
         Inr (if f = JStr ''date-time'' then ''<datetime>''
              else if f = JStr ''date'' then ''<date>''
              else if f = JStr ''email'' then ''<email>''
              else if f = JStr ''uri'' then ''<uri>''
              else ''<string>'')) \<and>
    (map_of d ''enum'' = None \<and> map_of d ''pattern'' = None \<and> map_of d ''format'' = None \<longrightarrow>
       process_type fmt (JDict d) = Inr ''<string>'')\<close>
  by (simp add: process_type_string process_string_def formats_get py_str_JStr comp_def)

theorem string_constraint_priority_witness:
  \<open>process_type ex_fmt
      (JDict [(''type'', JStr ''string''), (''enum'', JList [JStr ''a'', JStr ''b'']),
              (''pattern'', JStr ''^x''), (''format'', JStr ''date'')]) = Inr ''["a" | "b"]'' \<and>
    process_type ex_fmt
      (JDict [(''type'', JStr ''string''), (''enum'', JList [JStr ''a'', JStr ''b'']),
              (''format'', JList [JStr ''date''])]) = Inr ''["a" | "b"]'' \<and>
    process_type ex_fmt (JDict [(''type'', JStr ''string''), (''enum'', JList [])]) = Inr ''[]'' \<and>
    process_type zero_fmt
      (JDict [(''type'', JStr ''string''),
              (''enum'', JList [JFloat (Finite 0), JFloat NegZero])]) = Inr ''["0.0" | "-0.0"]'' \<and>
    process_type ex_fmt
      (JDict [(''type'', JStr ''string''), (''enum'', JStr (''a'' @ [CHR 0xCE, CHR 0xB5])),
              (''pattern'', JStr ''^x'')]) = Inr (''["a" | "'' @ [CHR 0xCE, CHR 0xB5] @ ''"]'') \<and>
    process_type ex_fmt
      (JDict [(''type'', JStr ''string''),
              (''enum'', JDict [(''x'', JInt 1), (''y'', JInt 2)]),
              (''pattern'', JStr ''^x'')]) = Inr ''["x" | "y"]'' \<and>
    process_type ex_fmt
      (JDict [(''type'', JStr ''string''), (''pattern'', JStr ''^[a-z]+$''),
              (''format'', JStr ''email'')]) = Inr ''<pattern ^[a-z]+$>'' \<and>
    process_type ex_fmt (JDict [(''type'', JStr ''string''), (''format'', JStr ''date-time'')]) =
      Inr ''<datetime>'' \<and>
    process_type ex_fmt (JDict [(''type'', JStr ''string''), (''format'', JStr ''date'')]) =
      Inr ''<date>'' \<and>
    process_type ex_fmt (JDict [(''type'', JStr ''string''), (''format'', JStr ''email'')]) =
      Inr ''<email>'' \<and>
    process_type ex_fmt (JDict [(''type'', JStr ''string''), (''format'', JStr ''uri'')]) =
      Inr ''<uri>'' \<and>
    process_type ex_fmt (JDict [(''type'', JStr ''string''), (''format'', JStr ''hostname'')]) =
      Inr ''<string>'' \<and>
    process_type ex_fmt (JDict [(''type'', JStr ''string''), (''minLength'', JInt 1)]) =
      Inr ''<string>''\<close>
  using
    string_constraint_priority
      [of "[(''type'', JStr ''string''), (''enum'', JList [JStr ''a'', JStr ''b'']),
            (''pattern'', JStr ''^x''), (''format'', JStr ''date'')]" ex_fmt]
    string_constraint_priority
      [of "[(''type'', JStr ''string''), (''enum'', JList [JStr ''a'', JStr ''b'']),
            (''format'', JList [JStr ''date''])]" ex_fmt]
    string_constraint_priority [of "[(''type'', JStr ''string''), (''enum'', JList [])]" ex_fmt]
    string_constraint_priority
      [of "[(''type'', JStr ''string''),
            (''enum'', JList [JFloat (Finite 0), JFloat NegZero])]" zero_fmt]
    string_constraint_priority
      [of "[(''type'', JStr ''string''), (''enum'', JStr (''a'' @ [CHR 0xCE, CHR 0xB5])),
            (''pattern'', JStr ''^x'')]" ex_fmt]
    string_constraint_priority
      [of "[(''type'', JStr ''string''),
            (''enum'', JDict [(''x'', JInt 1), (''y'', JInt 2)]),
            (''pattern'', JStr ''^x'')]" ex_fmt]
    string_constraint_priority
      [of "[(''type'', JStr ''string''), (''pattern'', JStr ''^[a-z]+$''),
            (''format'', JStr ''email'')]" ex_fmt]
    string_constraint_priority [of "[(''type'', JStr ''string''), (''format'', JStr ''date-time'')]" ex_fmt]
    string_constraint_priority [of "[(''type'', JStr ''string''), (''format'', JStr ''date'')]" ex_fmt]
    string_constraint_priority [of "[(''type'', JStr ''string''), (''format'', JStr ''email'')]" ex_fmt]
    string_constraint_priority [of "[(''type'', JStr ''string''), (''format'', JStr ''uri'')]" ex_fmt]
    string_constraint_priority [of "[(''type'', JStr ''string''), (''format'', JStr ''hostname'')]" ex_fmt]
    string_constraint_priority [of "[(''type'', JStr ''string''), (''minLength'', JInt 1)]" ex_fmt]
  by (simp add: py_str_def zero_fmt_def is_continuation_def)

text \<open>
  Where the interpreter cannot carry out the consulted constraint, the string node
  raises its type error and yields no fragment: an \<^verbatim>\<open>enum\<close> that is null, a boolean or a
  number cannot be iterated over, and a \<^verbatim>\<open>format\<close> that is a list or a map cannot be
  hashed by \<^verbatim>\<open>formats.get\<close>. JSON Schema has a list for \<^verbatim>\<open>enum\<close> and a string for
  \<^verbatim>\<open>format\<close>, so no schema has such a node.
\<close>

theorem string_constraint_type_errors:
  \<open>map_of d ''type'' = Some (JStr ''string'') \<Longrightarrow>
    (\<forall>e. map_of d ''enum'' = Some e \<and>
         (\<forall>vs. e \<noteq> JList vs) \<and> (\<forall>s. e \<noteq> JStr s) \<and> (\<forall>kvs. e \<noteq> JDict kvs) \<longrightarrow>
       process_type fmt (JDict d) = Inl (TypeError NotIterable e)) \<and>
    (\<forall>f. map_of d ''enum'' = None \<and> map_of d ''pattern'' = None \<and>
         map_of d ''format'' = Some f \<and> \<not> hashable f \<longrightarrow>
       process_type fmt (JDict d) = Inl (TypeError Unhashable f))\<close>
proof (intro conjI allI impI; elim conjE)
  fix e
  assume t: "map_of d ''type'' = Some (JStr ''string'')"
    and e: "map_of d ''enum'' = Some e"
    and "\<forall>vs. e \<noteq> JList vs" "\<forall>s. e \<noteq> JStr s" "\<forall>kvs. e \<noteq> JDict kvs"
  then have "py_iter e = Inl (TypeError NotIterable e)"
    by (cases e) simp_all
  with t e show "process_type fmt (JDict d) = Inl (TypeError NotIterable e)"
    by (simp add: process_type_string process_string_def)
next
  fix f
  assume "map_of d ''type'' = Some (JStr ''string'')"
    "map_of d ''enum'' = None" "map_of d ''pattern'' = None"
    "map_of d ''format'' = Some f" "\<not> hashable f"
  then show "process_type fmt (JDict d) = Inl (TypeError Unhashable f)"
    by (simp add: process_type_string process_string_def table_get_unhashable)
qed

theorem string_constraint_type_errors_witness:
  \<open>process_type ex_fmt (JDict [(''type'', JStr ''string''), (''enum'', JNull)]) =
      Inl (TypeError NotIterable JNull) \<and>
    process_type ex_fmt (JDict [(''type'', JStr ''string''), (''enum'', JInt 5)]) =
      Inl (TypeError NotIterable (JInt 5)) \<and>
    process_type ex_fmt (JDict [(''type'', JStr ''string''), (''format'', JList [JStr ''date''])]) =
      Inl (TypeError Unhashable (JList [JStr ''date''])) \<and>
    process_type ex_fmt (JDict [(''type'', JStr ''string''), (''format'', JDict [])]) =
      Inl (TypeError Unhashable (JDict []))\<close>
  using
    string_constraint_type_errors [of "[(''type'', JStr ''string''), (''enum'', JNull)]" ex_fmt]
    string_constraint_type_errors [of "[(''type'', JStr ''string''), (''enum'', JInt 5)]" ex_fmt]
    string_constraint_type_errors
      [of "[(''type'', JStr ''string''), (''format'', JList [JStr ''date''])]" ex_fmt]
    string_constraint_type_errors [of "[(''type'', JStr ''string''), (''format'', JDict [])]" ex_fmt]
  by simp

section \<open>Objects without properties\<close>

lemma process_type_object:
  "map_of d ''type'' = Some (JStr ''object'') \<Longrightarrow> process_type fmt (JDict d) = process_object fmt d"
  by (simp add: process_type.simps table_get_def type_handlers_def)

text \<open>
  Claim C4, as amended. \<^verbatim>\<open>process_object\<close> converts \<^verbatim>\<open>required\<close> to a set before it
  looks at \<^verbatim>\<open>properties\<close>. For every object node whose \<^verbatim>\<open>properties\<close> mapping is empty
  or absent: if \<^verbatim>\<open>required\<close> is absent or a value that \<^verbatim>\<open>set()\<close> accepts (a list of
  strings, as JSON Schema has it), the node compiles to exactly \<^verbatim>\<open>{}\<close>, whatever
  \<^verbatim>\<open>additionalProperties\<close> is, as a nested node and as the root; if \<^verbatim>\<open>required\<close> cannot
  be converted, the node fails with the interpreter's error of that conversion.
\<close>

theorem empty_properties_yield_braces:
  \<open>map_of d ''properties'' = None \<or> map_of d ''properties'' = Some (JDict []) \<Longrightarrow>
    (\<forall>required. py_set (dict_get d ''required'' (JList [])) = Inr required \<longrightarrow>
       process_object fmt d = Inr ''{}'' \<and>
       (map_of d ''type'' = Some (JStr ''object'') \<longrightarrow>
          process_type fmt (JDict d) = Inr ''{}'' \<and>
          json_schema_to_gbnf fmt rt (JDict d) = Inr ''{}'')) \<and>
    (\<forall>err. py_set (dict_get d ''required'' (JList [])) = Inl err \<longrightarrow>
       process_object fmt d = Inl err)\<close>
proof (intro conjI allI impI)
  assume props: "map_of d ''properties'' = None \<or> map_of d ''properties'' = Some (JDict [])"
  then have empty: "dict_get d ''properties'' (JDict []) = JDict []"
    by (auto simp: dict_get_def)
  {
    fix required
    assume req: "py_set (dict_get d ''required'' (JList [])) = Inr required"
    with empty show obj: "process_object fmt d = Inr ''{}''"
      by (simp add: process_object.simps)
    assume "map_of d ''type'' = Some (JStr ''object'')"
    with obj show "process_type fmt (JDict d) = Inr ''{}''"
      and "json_schema_to_gbnf fmt rt (JDict d) = Inr ''{}''"
      by (simp_all add: process_type_object json_schema_to_gbnf_def dict_get_def)
  }
  fix err
  assume "py_set (dict_get d ''required'' (JList [])) = Inl err"
  then show "process_object fmt d = Inl err"
    by (simp add: process_object.simps)
qed

theorem empty_properties_yield_braces_witness:
  \<open>process_object ex_fmt [(''type'', JStr ''object''), (''additionalProperties'', JBool True)] =
      Inr ''{}'' \<and>
    json_schema_to_gbnf ex_fmt ex_rt
      (JDict [(''type'', JStr ''object''), (''additionalProperties'', JBool True)]) = Inr ''{}'' \<and>
    process_type ex_fmt
      (JDict [(''type'', JStr ''object''), (''properties'', JDict []),
              (''required'', JList [JStr ''id'']),
              (''additionalProperties'', JDict [(''type'', JStr ''string'')])]) = Inr ''{}'' \<and>
    process_object ex_fmt [(''type'', JStr ''object''), (''required'', JList [JList []])] =
      Inl (TypeError Unhashable (JList []))\<close>
  using
    empty_properties_yield_braces
      [of "[(''type'', JStr ''object''), (''additionalProperties'', JBool True)]" ex_fmt ex_rt]
    empty_properties_yield_braces
      [of "[(''type'', JStr ''object''), (''properties'', JDict []),
            (''required'', JList [JStr ''id'']),
            (''additionalProperties'', JDict [(''type'', JStr ''string'')])]" ex_fmt ex_rt]
    empty_properties_yield_braces
      [of "[(''type'', JStr ''object''), (''required'', JList [JList []])]" ex_fmt ex_rt]
  by (simp add: dict_get_def py_set_def)

text \<open>
  Claim C4 as stated fails for an object node without properties whose \<^verbatim>\<open>required\<close> is
  not iterable: \<^verbatim>\<open>{"type": "object", "required": true}\<close> raises in \<^verbatim>\<open>set(...)\<close> before
  the empty mapping is looked at, and the entry point reports an error, not \<^verbatim>\<open>{}\<close>.
\<close>

theorem empty_properties_counterexample:
  \<open>process_object ex_fmt [(''type'', JStr ''object''), (''required'', JBool True)] =
      Inl (TypeError NotIterable (JBool True)) \<and>
    json_schema_to_gbnf ex_fmt ex_rt
      (JDict [(''type'', JStr ''object''), (''required'', JBool True)]) =
      Inl (ValueError ''Error processing schema: <runtime error>'')\<close>
  by (simp add: gbnf_eval)

section \<open>Termination\<close>

text \<open>
  Claim C7. A value of type \<open>json\<close> is a finite tree, and every function above
  is total: the recursion of the five helpers is accepted with its termination proof,
  whose measure is the size of the node a call works on (a call descends into
  \<^verbatim>\<open>items\<close>, \<^verbatim>\<open>additionalProperties\<close> or a property definition, each strictly smaller
  than the node that holds it). So on every input tree the compiler returns, and what
  it returns is a grammar or the \<^verbatim>\<open>ValueError\<close> of the entry point: no other
  exception leaves it. A \<^verbatim>\<open>$ref\<close> is never followed: a property definition that has the
  key compiles to the placeholder whatever the reference says and whatever else the
  definition holds, so a schema that refers to itself is compiled like any other.
\<close>

theorem compile_always_returns:
  \<open>((\<exists>g. json_schema_to_gbnf fmt rt schema = Inr g) \<or>
     (\<exists>m. json_schema_to_gbnf fmt rt schema = Inl (ValueError m))) \<and>
    (\<forall>d target. map_of d ''$ref'' = Some target \<longrightarrow>
       process_property fmt name (JDict d) is_required = Inr ''<ref>'')\<close>
proof (intro conjI allI impI)
  show "(\<exists>g. json_schema_to_gbnf fmt rt schema = Inr g) \<or>
     (\<exists>m. json_schema_to_gbnf fmt rt schema = Inl (ValueError m))"
  proof (cases schema)
    case (JDict d)
    then show ?thesis
      by (cases "process_object fmt d") (simp_all add: json_schema_to_gbnf_def)
  qed (simp_all add: json_schema_to_gbnf_def)
next
  fix d :: "(string \<times> json) list" and target
  assume "map_of d ''$ref'' = Some target"
  then show "process_property fmt name (JDict d) is_required = Inr ''<ref>''"
    by (simp add: process_property.simps process_ref_def)
qed

theorem compile_always_returns_witness:
  \<open>process_property ex_fmt ''next'' (JDict [(''$ref'', JStr ''#'')]) False = Inr ''<ref>'' \<and>
    json_schema_to_gbnf ex_fmt ex_rt
      (JDict [(''type'', JStr ''object''),
              (''properties'', JDict [(''next'', JDict [(''$ref'', JStr ''#'')])])]) =
      Inr ''{ <ref> }''\<close>
  using compile_always_returns
    [of ex_fmt ex_rt
        "JDict [(''type'', JStr ''object''),
                (''properties'', JDict [(''next'', JDict [(''$ref'', JStr ''#'')])])]"
        "''next''" False]
  by (simp add: gbnf_eval)

section \<open>References outside property definitions\<close>




section \<open>The loop over the properties\<close>


text \<open>A loop that succeeds has appended one rule for each property.\<close>

lemma process_properties_Inr_length:
  "process_properties fmt required ps = Inr rules \<Longrightarrow> length rules = length ps"
proof (induction ps arbitrary: rules)
  case Nil
  then show ?case by (simp add: process_properties.simps)
next
  case (Cons p ps)
  obtain name pdef where p: "p = (name, pdef)" by (cases p)
  from Cons.prems obtain rule rest
    where "process_properties fmt required ps = Inr rest" "rules = rule # rest"
    unfolding p by (auto simp: process_properties.simps split: sum.splits exn.splits)
  with Cons.IH show ?case by simp
qed




section \<open>A falsy \<^verbatim>\<open>additionalProperties\<close>\<close>

lemma map_of_without:
  "map_of (filter (\<lambda>kv. fst kv \<noteq> k) d) k' = (if k' = k then None else map_of d k')"
  by (induction d) auto

text \<open>
  Claim C9. For every object node with at least one declared property whose
  \<^verbatim>\<open>additionalProperties\<close> is present and falsy (the empty schema map \<^verbatim>\<open>{}\<close>, and also
  \<^verbatim>\<open>false\<close>, null, 0, an empty string or list), no wildcard member is emitted: the node
  compiles exactly as the same node without the \<^verbatim>\<open>additionalProperties\<close> key does, and
  when it compiles, the output is the braces around the rules of the declared
  properties, one rule for each, and nothing else. The wildcard branch is behind
  \<^verbatim>\<open>if additional_props:\<close>, so it runs for a truthy value only.
\<close>

theorem falsy_additional_properties_no_wildcard:
  \<open>map_of d ''additionalProperties'' = Some a \<Longrightarrow> \<not> truthy a \<Longrightarrow>
    map_of d ''properties'' = Some (JDict ps) \<Longrightarrow> ps \<noteq> [] \<Longrightarrow>
    process_object fmt d =
      process_object fmt (filter (\<lambda>kv. fst kv \<noteq> ''additionalProperties'') d) \<and>
    (\<forall>g. process_object fmt d = Inr g \<longrightarrow>
       (\<exists>required rules.
          py_set (dict_get d ''required'' (JList [])) = Inr required \<and>
          process_properties fmt required ps = Inr rules \<and>
          length rules = length ps \<and> g = braces rules))\<close>
proof (intro conjI allI impI)
  assume a: "map_of d ''additionalProperties'' = Some a" "\<not> truthy a"
    and ps: "map_of d ''properties'' = Some (JDict ps)" "ps \<noteq> []"
  let ?d' = "filter (\<lambda>kv. fst kv \<noteq> ''additionalProperties'') d"
  have same: "dict_get ?d' ''properties'' (JDict []) = dict_get d ''properties'' (JDict [])"
    "dict_get ?d' ''required'' (JList []) = dict_get d ''required'' (JList [])"
    by (simp_all add: dict_get_def map_of_without)
  have gone: "dict_get ?d' ''additionalProperties'' (JDict []) = JDict []"
    by (simp add: dict_get_def map_of_without)
  have here: "dict_get d ''additionalProperties'' (JDict []) = a"
    using a by (simp add: dict_get_def)
  have unfold: "process_object fmt d =
      (case py_set (dict_get d ''required'' (JList [])) of
         Inl e \<Rightarrow> Inl e
       | Inr required \<Rightarrow>
           (case process_properties fmt required ps of
              Inl e \<Rightarrow> Inl e
            | Inr rules \<Rightarrow> Inr (braces rules)))"
    using a ps here
    by (simp add: process_object.simps [of fmt d] dict_get_def split: sum.splits)
  have "process_object fmt ?d' =
      (case py_set (dict_get d ''required'' (JList [])) of
         Inl e \<Rightarrow> Inl e
       | Inr required \<Rightarrow>
           (case process_properties fmt required ps of
              Inl e \<Rightarrow> Inl e
            | Inr rules \<Rightarrow> Inr (braces rules)))"
    using ps same gone
    by (simp add: process_object.simps [of fmt ?d'] dict_get_def split: sum.splits)
  with unfold show "process_object fmt d = process_object fmt ?d'" by simp
  fix g
  assume "process_object fmt d = Inr g"
  with unfold obtain required rules
    where r: "py_set (dict_get d ''required'' (JList [])) = Inr required"
      "process_properties fmt required ps = Inr rules" "g = braces rules"
    by (auto split: sum.splits)
  from r(2) have "length rules = length ps"
    by (rule process_properties_Inr_length)
  with r show "\<exists>required rules.
          py_set (dict_get d ''required'' (JList [])) = Inr required \<and>
          process_properties fmt required ps = Inr rules \<and>
          length rules = length ps \<and> g = braces rules"
    by blast
qed

theorem falsy_additional_properties_no_wildcard_witness:
  \<open>process_object ex_fmt
      [(''type'', JStr ''object''),
       (''properties'', JDict [(''id'', JDict [(''type'', JStr ''integer'')])]),
       (''required'', JList [JStr ''id'']),
       (''additionalProperties'', JDict [])] = Inr ''{ "id" : <integer> }'' \<and>
    process_object ex_fmt
      [(''type'', JStr ''object''),
       (''properties'', JDict [(''id'', JDict [(''type'', JStr ''integer'')])]),
       (''required'', JList [JStr ''id''])] = Inr ''{ "id" : <integer> }'' \<and>
    process_object ex_fmt
      [(''type'', JStr ''object''),
       (''properties'', JDict [(''id'', JDict [(''type'', JStr ''integer'')])]),
       (''required'', JList [JStr ''id'']),
       (''additionalProperties'', JBool True)] = Inr ''{ "id" : <integer>, "*" : <any> }''\<close>
  using falsy_additional_properties_no_wildcard
    [where d = "[(''type'', JStr ''object''),
                 (''properties'', JDict [(''id'', JDict [(''type'', JStr ''integer'')])]),
                 (''required'', JList [JStr ''id'']),
                 (''additionalProperties'', JDict [])]"
       and a = "JDict []" and ps = "[(''id'', JDict [(''type'', JStr ''integer'')])]"
       and fmt = ex_fmt]
  by (simp add: gbnf_eval)

section \<open>Properties that are not maps\<close>




section \<open>The examples of the specification\<close>

text \<open>
  The end-to-end examples: a required string property, the same property when it is
  not required, an optional array of strings, and an enumeration under a required name.
\<close>

theorem spec_examples:
  \<open>json_schema_to_gbnf ex_fmt ex_rt
      (JDict [(''type'', JStr ''object''),
              (''properties'', JDict [(''name'', JDict [(''type'', JStr ''string'')])]),
              (''required'', JList [JStr ''name''])]) = Inr ''{ "name" : <string> }'' \<and>
    json_schema_to_gbnf ex_fmt ex_rt
      (JDict [(''type'', JStr ''object''),
              (''properties'', JDict [(''name'', JDict [(''type'', JStr ''string'')])])]) =
      Inr (''{ "name" : <string> | '' @ [CHR 0xCE, CHR 0xB5] @ '' }'') \<and>
    json_schema_to_gbnf ex_fmt ex_rt
      (JDict [(''type'', JStr ''object''),
              (''properties'',
                 JDict [(''tags'', JDict [(''type'', JStr ''array''),
                                          (''items'', JDict [(''type'', JStr ''string'')])])])]) =
      Inr (''{ "tags" : [<string>*] | '' @ [CHR 0xCE, CHR 0xB5] @ '' }'') \<and>
    process_property ex_fmt ''status''
      (JDict [(''type'', JStr ''string''), (''enum'', JList [JStr ''a'', JStr ''b''])]) True =
      Inr ''"status" : ["a" | "b"]''\<close>
  by (simp add: gbnf_eval)

end
